theory Spec2Isabelle
  imports Main "HOL-Library.Word"
begin

section \<open>Data model of core/dutydb/memory.go\<close>

text \<open>
  Go's \<open>uint64\<close> is a 64-bit word, \<open>eth2p0.Root\<close> (an array of 32 bytes) a 256-bit
  word, \<open>core.PubKey\<close> a string.
\<close>

type_synonym root = "256 word"
type_synonym pubKey = string

text \<open>
  Modelled from the spec: \<open>core.DutyType\<close> and \<open>core.Duty\<close> are declared in package
  \<open>core\<close>. The five kinds that \<open>Store\<close> and \<open>deleteDutyUnsafe\<close> name are constructors;
  every other value of the enumeration is \<open>DutyOther\<close>.
\<close>

datatype dutyType =
    DutyProposer
  | DutyBuilderProposer
  | DutyAttester
  | DutyAggregator
  | DutySyncContribution
  | DutyOther nat

record duty =
  Slot :: "64 word"
  Type :: dutyType

text \<open>The four key structs declared at the end of memory.go.\<close>

datatype attKey = AttKey (ak_Slot: "64 word") (ak_CommIdx: "64 word")

datatype pkKey = PkKey (pk_Slot: "64 word") (pk_CommIdx: "64 word") (pk_ValIdx: "64 word")

datatype aggKey = AggKey (ag_Slot: "64 word") (ag_Root: root)

datatype contribKey =
  ContribKey (ck_Slot: "64 word") (ck_SubcommIdx: "64 word") (ck_Root: root)

text \<open>
  Modelled from the spec: the payload types come from the unsigned-data codec (package
  \<open>core\<close> and the eth2 client library). The records carry the fields that memory.go
  reads; the methods it calls on them are the fields of \<open>codec\<close> below.
\<close>

record checkpoint =
  cp_Epoch :: "64 word"
  cp_Root :: root

record eth2AttestationData =
  data_Slot :: "64 word"
  data_Index :: "64 word"
  data_BeaconBlockRoot :: root
  data_Source :: checkpoint
  data_Target :: checkpoint

record attesterDuty =
  att_Slot :: "64 word"
  att_CommitteeIndex :: "64 word"
  att_ValidatorIndex :: "64 word"

record attestationData =
  Data :: eth2AttestationData
  Duty :: attesterDuty

record versionedProposal =
  pro_Version :: nat
  pro_Slot :: "64 word"
  pro_BlockRoot :: root

record versionedAggregatedAttestation =
  agg_Version :: nat
  agg_Data :: eth2AttestationData
  agg_AggregationBits :: "bool list"
  agg_Signature :: nat

record syncCommitteeContribution =
  con_Slot :: "64 word"
  con_BeaconBlockRoot :: root
  con_SubcommitteeIndex :: "64 word"
  con_AggregationBits :: "bool list"
  con_Signature :: nat

text \<open>\<open>core.UnsignedData\<close>: the interface value, tagged by its dynamic type.\<close>

datatype unsignedData =
    UVersionedProposal versionedProposal
  | UAttestationData attestationData
  | UVersionedAggregatedAttestation versionedAggregatedAttestation
  | USyncContribution syncCommitteeContribution

text \<open>Every error that memory.go creates, wraps or passes on.\<close>

datatype error =
    ErrExpiredDuty
  | ErrProposerSetLength nat
  | ErrDeprecatedDutyBuilderProposer
  | ErrUnsupportedDutyType
  | ErrInvalidUnsignedAttestationData
  | ErrClashingPublicKey pkKey
  | ErrClashingAttestationData attKey
  | ErrInvalidUnsignedAggregatedAttestation
  | ErrClashingDataRoot root root
  | ErrInvalidUnsignedSyncContribution
  | ErrClashingSyncContributions
  | ErrInvalidVersionedProposal
  | ErrClashingBlocks
  | ErrWrap error string
  | ErrCodec string
  | ErrShutdown
  | ErrContext
  | ErrPubkeyNotFound
  | ErrUnknownDutyType
  | ErrInvalidAggregatedAttestation

text \<open>The errors that the specification calls \<open>ClashingData\<close> and \<open>ClashingPubKey\<close>.\<close>

fun isClashingData :: "error \<Rightarrow> bool" where
  "isClashingData ErrClashingBlocks = True"
| "isClashingData ErrClashingSyncContributions = True"
| "isClashingData (ErrClashingAttestationData k) = True"
| "isClashingData (ErrClashingDataRoot existing provided) = True"
| "isClashingData e = False"

fun isClashingPubKey :: "error \<Rightarrow> bool" where
  "isClashingPubKey (ErrClashingPublicKey k) = True"
| "isClashingPubKey e = False"

text \<open>
  Modelled from the spec: the methods of the payload types (\<open>Clone\<close>, \<open>Slot\<close>, \<open>Root\<close>,
  \<open>Data\<close>, \<open>HashTreeRoot\<close>, \<open>String\<close>) are not in memory.go. They are a parameter of
  every operation; being HOL functions, they are deterministic.
\<close>

record codec =
  Clone :: "unsignedData \<Rightarrow> error + unsignedData"
  ProposalSlot :: "versionedProposal \<Rightarrow> error + 64 word"
  ProposalRoot :: "versionedProposal \<Rightarrow> error + root"
  AggData :: "versionedAggregatedAttestation \<Rightarrow> error + eth2AttestationData"
  AttDataHashTreeRoot :: "eth2AttestationData \<Rightarrow> error + root"
  AttDataString :: "eth2AttestationData \<Rightarrow> string"
  ContribHashTreeRoot :: "syncCommitteeContribution \<Rightarrow> error + root"

subsection \<open>Channels and waiters\<close>

text \<open>
  A buffered channel: everything ever sent on it and the number of values received.
  The buffer holds the values sent and not yet received.
\<close>

datatype 'v chan = Chan (sent: "'v list") (rcvd: nat)

definition buffered :: "'v chan \<Rightarrow> 'v list" where
  "buffered c = drop (rcvd c) (sent c)"

text \<open>\<open>make(chan T, 1)\<close>: the capacity of every response channel.\<close>

definition responseCap :: nat where
  "responseCap = 1"

text \<open>\<open>ch <- v\<close>: \<open>None\<close> when the buffer is full, where the send would block.\<close>

definition chanSend :: "'v chan \<Rightarrow> 'v \<Rightarrow> 'v chan option" where
  "chanSend c v =
     (if length (buffered c) < responseCap then Some (Chan (sent c @ [v]) (rcvd c)) else None)"

text \<open>\<open><-ch\<close> on a channel with a buffered value.\<close>

definition chanRecv :: "'v chan \<Rightarrow> ('v \<times> 'v chan) option" where
  "chanRecv c =
     (case buffered c of [] \<Rightarrow> None | v # rest \<Rightarrow> Some (v, Chan (sent c) (Suc (rcvd c))))"

text \<open>
  \<open>attQuery\<close>, \<open>proQuery\<close>, \<open>aggQuery\<close> and \<open>contribQuery\<close> differ in the type of the key
  only. \<open>Response\<close> and \<open>Cancel\<close> are the addresses of the two channels.
\<close>

datatype 'k query = Query (Key: 'k) (Response: nat) (Cancel: nat)

type_synonym attQuery = "attKey query"
type_synonym proQuery = "64 word query"
type_synonym aggQuery = "aggKey query"
type_synonym contribQuery = "contribKey query"

subsection \<open>The database\<close>

text \<open>
  The fields of \<open>MemDB\<close>, then the store of the channels that waiters share with their
  callers: the next free address, which cancel channels are closed, and the response
  channels of each kind. \<open>shutdown\<close> is true once the shutdown channel is closed. The
  deadliner is outside: what it answers is an argument of \<open>Store\<close>.
\<close>

record memDB =
  attDuties :: "attKey \<rightharpoonup> eth2AttestationData"
  attPubKeys :: "pkKey \<rightharpoonup> pubKey"
  attKeysBySlot :: "64 word \<rightharpoonup> pkKey list"
  attQueries :: "attQuery list"
  proDuties :: "64 word \<rightharpoonup> versionedProposal"
  proQueries :: "proQuery list"
  aggDuties :: "aggKey \<rightharpoonup> versionedAggregatedAttestation"
  aggKeysBySlot :: "64 word \<rightharpoonup> aggKey list"
  aggQueries :: "aggQuery list"
  contribDuties :: "contribKey \<rightharpoonup> syncCommitteeContribution"
  contribKeysBySlot :: "64 word \<rightharpoonup> contribKey list"
  contribQueries :: "contribQuery list"
  shutdown :: bool
  chanNext :: nat
  cancelClosed :: "nat \<Rightarrow> bool"
  attChans :: "nat \<Rightarrow> eth2AttestationData chan"
  proChans :: "nat \<Rightarrow> versionedProposal chan"
  aggChans :: "nat \<Rightarrow> versionedAggregatedAttestation chan"
  contribChans :: "nat \<Rightarrow> syncCommitteeContribution chan"

definition NewMemDB :: memDB where
  "NewMemDB =
     \<lparr> attDuties = Map.empty, attPubKeys = Map.empty, attKeysBySlot = Map.empty,
       attQueries = [],
       proDuties = Map.empty, proQueries = [],
       aggDuties = Map.empty, aggKeysBySlot = Map.empty, aggQueries = [],
       contribDuties = Map.empty, contribKeysBySlot = Map.empty, contribQueries = [],
       shutdown = False,
       chanNext = 0, cancelClosed = (\<lambda>c. False),
       attChans = (\<lambda>c. Chan [] 0), proChans = (\<lambda>c. Chan [] 0),
       aggChans = (\<lambda>c. Chan [] 0), contribChans = (\<lambda>c. Chan [] 0) \<rparr>"

text \<open>\<open>Shutdown\<close> closes the channel; closing a closed channel panics (\<open>None\<close>).\<close>

definition Shutdown :: "memDB \<Rightarrow> memDB option" where
  "Shutdown db = (if shutdown db then None else Some (db\<lparr>shutdown := True\<rparr>))"

text \<open>Reading a slot-to-keys map at a missing slot gives the nil slice.\<close>

definition keysAt :: "('s \<rightharpoonup> 'k list) \<Rightarrow> 's \<Rightarrow> 'k list" where
  "keysAt m s = (case m s of None \<Rightarrow> [] | Some ks \<Rightarrow> ks)"

text \<open>\<open>m[s] = append(m[s], k)\<close>\<close>

definition appendKey :: "('s \<rightharpoonup> 'k list) \<Rightarrow> 's \<Rightarrow> 'k \<Rightarrow> ('s \<rightharpoonup> 'k list)" where
  "appendKey m s k = m(s \<mapsto> keysAt m s @ [k])"

subsection \<open>storeAttestationUnsafe\<close>

text \<open>
  The function runs four blocks in a row, each returning early on a clash: the pubkey
  under the caller's committee index, the attestation data under it, then both again
  under committee index 0. A block that returns an error has written nothing itself.
\<close>

definition putAttPubKey :: "memDB \<Rightarrow> 64 word \<Rightarrow> pkKey \<Rightarrow> pubKey \<Rightarrow> error + memDB" where
  "putAttPubKey db dutySlot pKey pubkeyStore =
     (case attPubKeys db pKey of
        Some val \<Rightarrow> if val \<noteq> pubkeyStore then Inl (ErrClashingPublicKey pKey) else Inr db
      | None \<Rightarrow>
          Inr (db\<lparr> attPubKeys := (attPubKeys db)(pKey \<mapsto> pubkeyStore),
                   attKeysBySlot := appendKey (attKeysBySlot db) dutySlot pKey \<rparr>))"

definition putAttDuty ::
  "codec \<Rightarrow> memDB \<Rightarrow> attKey \<Rightarrow> eth2AttestationData \<Rightarrow> error + memDB" where
  "putAttDuty cd db aKey d =
     (case attDuties db aKey of
        Some val \<Rightarrow>
          if AttDataString cd val \<noteq> AttDataString cd d
          then Inl (ErrClashingAttestationData aKey) else Inr db
      | None \<Rightarrow> Inr (db\<lparr> attDuties := (attDuties db)(aKey \<mapsto> d) \<rparr>))"

definition storeAttestationUnsafe ::
  "codec \<Rightarrow> memDB \<Rightarrow> pubKey \<Rightarrow> unsignedData \<Rightarrow> error option \<times> memDB" where
  "storeAttestationUnsafe cd db pubkey unsignedData =
     (case Clone cd unsignedData of
        Inl err \<Rightarrow> (Some err, db)
      | Inr (UAttestationData attData) \<Rightarrow>
          (let pKey = PkKey (data_Slot (Data attData)) (att_CommitteeIndex (Duty attData))
                            (att_ValidatorIndex (Duty attData));
               aKey = AttKey (data_Slot (Data attData)) (att_CommitteeIndex (Duty attData));
               pKeyCommIdx0 = PkKey (data_Slot (Data attData)) 0
                                    (att_ValidatorIndex (Duty attData));
               aKeyCommIdx0 = AttKey (data_Slot (Data attData)) 0
           in case putAttPubKey db (att_Slot (Duty attData)) pKey pubkey of
                Inl err \<Rightarrow> (Some err, db)
              | Inr db1 \<Rightarrow>
            (case putAttDuty cd db1 aKey (Data attData) of
                Inl err \<Rightarrow> (Some err, db1)
              | Inr db2 \<Rightarrow>
            (case putAttPubKey db2 (att_Slot (Duty attData)) pKeyCommIdx0 pubkey of
                Inl err \<Rightarrow> (Some err, db2)
              | Inr db3 \<Rightarrow>
            (case putAttDuty cd db3 aKeyCommIdx0 (Data attData) of
                Inl err \<Rightarrow> (Some err, db3)
              | Inr db4 \<Rightarrow> (None, db4)))))
      | Inr other \<Rightarrow> (Some ErrInvalidUnsignedAttestationData, db))"

subsection \<open>storeAggAttestationUnsafe\<close>

definition storeAggAttestationUnsafe ::
  "codec \<Rightarrow> memDB \<Rightarrow> unsignedData \<Rightarrow> error option \<times> memDB" where
  "storeAggAttestationUnsafe cd db unsignedData =
     (case Clone cd unsignedData of
        Inl err \<Rightarrow> (Some err, db)
      | Inr (UVersionedAggregatedAttestation aggAtt) \<Rightarrow>
          (case AggData cd aggAtt of
             Inl err \<Rightarrow> (Some err, db)
           | Inr aggAttData \<Rightarrow>
          (case AttDataHashTreeRoot cd aggAttData of
             Inl err \<Rightarrow> (Some (ErrWrap err ''hash aggregated attestation root''), db)
           | Inr aggRoot \<Rightarrow>
          (let slot = data_Slot aggAttData; key = AggKey slot aggRoot
           in case aggDuties db key of
                Some existing \<Rightarrow>
                  (case AggData cd existing of
                     Inl err \<Rightarrow> (Some (ErrWrap err ''existing data''), db)
                   | Inr existingData \<Rightarrow>
                  (case AttDataHashTreeRoot cd existingData of
                     Inl err \<Rightarrow> (Some (ErrWrap err ''existing data root''), db)
                   | Inr existingDataRoot \<Rightarrow>
                  (case AggData cd aggAtt of
                     Inl err \<Rightarrow> (Some (ErrWrap err ''provided data''), db)
                   | Inr providedData \<Rightarrow>
                  (case AttDataHashTreeRoot cd providedData of
                     Inl err \<Rightarrow> (Some (ErrWrap err ''provided data root''), db)
                   | Inr providedDataRoot \<Rightarrow>
                       if existingDataRoot \<noteq> providedDataRoot
                       then (Some (ErrClashingDataRoot existingDataRoot providedDataRoot), db)
                       else (None, db\<lparr> aggDuties := (aggDuties db)(key \<mapsto> aggAtt) \<rparr>)))))
              | None \<Rightarrow>
                  (None, db\<lparr> aggDuties := (aggDuties db)(key \<mapsto> aggAtt),
                             aggKeysBySlot := appendKey (aggKeysBySlot db) slot key \<rparr>))))
      | Inr other \<Rightarrow> (Some ErrInvalidUnsignedAggregatedAttestation, db))"

subsection \<open>storeSyncContributionUnsafe\<close>

definition storeSyncContributionUnsafe ::
  "codec \<Rightarrow> memDB \<Rightarrow> unsignedData \<Rightarrow> error option \<times> memDB" where
  "storeSyncContributionUnsafe cd db unsignedData =
     (case Clone cd unsignedData of
        Inl err \<Rightarrow> (Some err, db)
      | Inr (USyncContribution contrib) \<Rightarrow>
          (case ContribHashTreeRoot cd contrib of
             Inl err \<Rightarrow> (Some (ErrWrap err ''hash sync committee contribution''), db)
           | Inr contribRoot \<Rightarrow>
          (let key = ContribKey (con_Slot contrib) (con_SubcommitteeIndex contrib)
                                (con_BeaconBlockRoot contrib)
           in case contribDuties db key of
                Some existing \<Rightarrow>
                  (case ContribHashTreeRoot cd existing of
                     Inl err \<Rightarrow> (Some (ErrWrap err ''sync committee contribution root''), db)
                   | Inr existingRoot \<Rightarrow>
                       if existingRoot \<noteq> contribRoot
                       then (Some ErrClashingSyncContributions, db)
                       else (None, db))
              | None \<Rightarrow>
                  (None, db\<lparr> contribDuties := (contribDuties db)(key \<mapsto> contrib),
                             contribKeysBySlot :=
                               appendKey (contribKeysBySlot db) (con_Slot contrib) key \<rparr>)))
      | Inr other \<Rightarrow> (Some ErrInvalidUnsignedSyncContribution, db))"

subsection \<open>storeProposalUnsafe\<close>

definition storeProposalUnsafe ::
  "codec \<Rightarrow> memDB \<Rightarrow> unsignedData \<Rightarrow> error option \<times> memDB" where
  "storeProposalUnsafe cd db unsignedData =
     (case Clone cd unsignedData of
        Inl err \<Rightarrow> (Some err, db)
      | Inr (UVersionedProposal proposal) \<Rightarrow>
          (case ProposalSlot cd proposal of
             Inl err \<Rightarrow> (Some err, db)
           | Inr slot \<Rightarrow>
          (case proDuties db slot of
             Some existing \<Rightarrow>
               (case ProposalRoot cd existing of
                  Inl err \<Rightarrow> (Some (ErrWrap err ''proposal root''), db)
                | Inr existingRoot \<Rightarrow>
               (case ProposalRoot cd proposal of
                  Inl err \<Rightarrow> (Some (ErrWrap err ''proposal root''), db)
                | Inr providedRoot \<Rightarrow>
                    if existingRoot \<noteq> providedRoot
                    then (Some ErrClashingBlocks, db)
                    else (None, db)))
           | None \<Rightarrow> (None, db\<lparr> proDuties := (proDuties db)(slot \<mapsto> proposal) \<rparr>)))
      | Inr other \<Rightarrow> (Some ErrInvalidVersionedProposal, db))"

subsection \<open>The resolvers\<close>

text \<open>\<open>cancelled\<close>: a receive on the cancel channel succeeds once it is closed.\<close>

definition cancelled :: "(nat \<Rightarrow> bool) \<Rightarrow> nat \<Rightarrow> bool" where
  "cancelled closed cancel = closed cancel"

text \<open>
  The loop that the four resolvers share, over the waiters still to visit, with the
  channels and the \<open>unresolved\<close> slice built so far. \<open>None\<close>: a send blocked.
\<close>

fun resolveLoop ::
  "('k \<rightharpoonup> 'v) \<Rightarrow> (nat \<Rightarrow> bool) \<Rightarrow> 'k query list \<Rightarrow> (nat \<Rightarrow> 'v chan) \<Rightarrow> 'k query list
   \<Rightarrow> ('k query list \<times> (nat \<Rightarrow> 'v chan)) option" where
  "resolveLoop duties closed [] chans unresolved = Some (unresolved, chans)"
| "resolveLoop duties closed (query # rest) chans unresolved =
     (if cancelled closed (Cancel query)
      then resolveLoop duties closed rest chans unresolved
      else case duties (Key query) of
             None \<Rightarrow> resolveLoop duties closed rest chans (unresolved @ [query])
           | Some val \<Rightarrow>
               (case chanSend (chans (Response query)) val of
                  None \<Rightarrow> None
                | Some ch \<Rightarrow>
                    resolveLoop duties closed rest (chans(Response query := ch)) unresolved))"

definition resolveAttQueriesUnsafe :: "memDB \<Rightarrow> memDB option" where
  "resolveAttQueriesUnsafe db =
     (case resolveLoop (attDuties db) (cancelClosed db) (attQueries db) (attChans db) [] of
        None \<Rightarrow> None
      | Some (unresolved, chans) \<Rightarrow> Some (db\<lparr> attQueries := unresolved, attChans := chans \<rparr>))"

definition resolveProQueriesUnsafe :: "memDB \<Rightarrow> memDB option" where
  "resolveProQueriesUnsafe db =
     (case resolveLoop (proDuties db) (cancelClosed db) (proQueries db) (proChans db) [] of
        None \<Rightarrow> None
      | Some (unresolved, chans) \<Rightarrow> Some (db\<lparr> proQueries := unresolved, proChans := chans \<rparr>))"

definition resolveAggQueriesUnsafe :: "memDB \<Rightarrow> memDB option" where
  "resolveAggQueriesUnsafe db =
     (case resolveLoop (aggDuties db) (cancelClosed db) (aggQueries db) (aggChans db) [] of
        None \<Rightarrow> None
      | Some (unresolved, chans) \<Rightarrow> Some (db\<lparr> aggQueries := unresolved, aggChans := chans \<rparr>))"

definition resolveContribQueriesUnsafe :: "memDB \<Rightarrow> memDB option" where
  "resolveContribQueriesUnsafe db =
     (case resolveLoop (contribDuties db) (cancelClosed db) (contribQueries db)
                       (contribChans db) [] of
        None \<Rightarrow> None
      | Some (unresolved, chans) \<Rightarrow>
          Some (db\<lparr> contribQueries := unresolved, contribChans := chans \<rparr>))"

subsection \<open>deleteDutyUnsafe\<close>

definition deleteAttKey :: "pkKey \<Rightarrow> memDB \<Rightarrow> memDB" where
  "deleteAttKey key db =
     db\<lparr> attPubKeys := (attPubKeys db)(key := None),
         attDuties := (attDuties db)(AttKey (pk_Slot key) (pk_CommIdx key) := None) \<rparr>"

definition deleteAggKey :: "aggKey \<Rightarrow> memDB \<Rightarrow> memDB" where
  "deleteAggKey key db = db\<lparr> aggDuties := (aggDuties db)(key := None) \<rparr>"

definition deleteContribKey :: "contribKey \<Rightarrow> memDB \<Rightarrow> memDB" where
  "deleteContribKey key db = db\<lparr> contribDuties := (contribDuties db)(key := None) \<rparr>"

definition deleteDutyUnsafe :: "memDB \<Rightarrow> duty \<Rightarrow> error option \<times> memDB" where
  "deleteDutyUnsafe db duty =
     (case Type duty of
        DutyProposer \<Rightarrow> (None, db\<lparr> proDuties := (proDuties db)(Slot duty := None) \<rparr>)
      | DutyBuilderProposer \<Rightarrow> (Some ErrDeprecatedDutyBuilderProposer, db)
      | DutyAttester \<Rightarrow>
          (let db1 = fold deleteAttKey (keysAt (attKeysBySlot db) (Slot duty)) db
           in (None, db1\<lparr> attKeysBySlot := (attKeysBySlot db1)(Slot duty := None) \<rparr>))
      | DutyAggregator \<Rightarrow>
          (let db1 = fold deleteAggKey (keysAt (aggKeysBySlot db) (Slot duty)) db
           in (None, db1\<lparr> aggKeysBySlot := (aggKeysBySlot db1)(Slot duty := None) \<rparr>))
      | DutySyncContribution \<Rightarrow>
          (let db1 = fold deleteContribKey (keysAt (contribKeysBySlot db) (Slot duty)) db
           in (None, db1\<lparr> contribKeysBySlot := (contribKeysBySlot db1)(Slot duty := None) \<rparr>))
      | DutyOther n \<Rightarrow> (Some ErrUnknownDutyType, db))"

subsection \<open>Store\<close>

text \<open>
  A \<open>for\<close> loop over a collection that returns at the first error; the state it leaves
  is the one the failing call left.
\<close>

fun forEach ::
  "(memDB \<Rightarrow> 'a \<Rightarrow> error option \<times> memDB) \<Rightarrow> memDB \<Rightarrow> 'a list \<Rightarrow> error option \<times> memDB" where
  "forEach f db [] = (None, db)"
| "forEach f db (x # xs) =
     (case f db x of
        (Some err, db1) \<Rightarrow> (Some err, db1)
      | (None, db1) \<Rightarrow> forEach f db1 xs)"

text \<open>
  The loop at the end of \<open>Store\<close>: \<open>expired\<close> are the duties that the deadliner's channel
  hands over before the \<open>default\<close> case of the \<open>select\<close> is taken.
\<close>

definition deleteExpired :: "memDB \<Rightarrow> duty list \<Rightarrow> error option \<times> memDB" where
  "deleteExpired db expired = forEach deleteDutyUnsafe db expired"

text \<open>
  \<open>unsignedSet\<close> is a Go map from public key to payload; the list gives its entries in
  the order in which the \<open>range\<close> loop visits them. \<open>added\<close> is the answer of
  \<open>deadliner.Add\<close>. The result is \<open>None\<close> when a resolver's send blocks.
\<close>

definition Store ::
  "codec \<Rightarrow> memDB \<Rightarrow> duty \<Rightarrow> (pubKey \<times> unsignedData) list \<Rightarrow> bool \<Rightarrow> duty list
   \<Rightarrow> (error option \<times> memDB) option" where
  "Store cd db duty unsignedSet added expired =
     (if \<not> added then Some (Some ErrExpiredDuty, db)
      else case Type duty of
        DutyProposer \<Rightarrow>
          if length unsignedSet > 1
          then Some (Some (ErrProposerSetLength (length unsignedSet)), db)
          else (case forEach (\<lambda>d (pubkey, unsignedData). storeProposalUnsafe cd d unsignedData)
                             db unsignedSet of
                  (Some err, db1) \<Rightarrow> Some (Some err, db1)
                | (None, db1) \<Rightarrow>
                    (case resolveProQueriesUnsafe db1 of
                       None \<Rightarrow> None
                     | Some db2 \<Rightarrow> Some (deleteExpired db2 expired)))
      | DutyBuilderProposer \<Rightarrow> Some (Some ErrDeprecatedDutyBuilderProposer, db)
      | DutyAttester \<Rightarrow>
          (case forEach (\<lambda>d (pubkey, unsignedData). storeAttestationUnsafe cd d pubkey unsignedData)
                        db unsignedSet of
             (Some err, db1) \<Rightarrow> Some (Some err, db1)
           | (None, db1) \<Rightarrow>
               (case resolveAttQueriesUnsafe db1 of
                  None \<Rightarrow> None
                | Some db2 \<Rightarrow> Some (deleteExpired db2 expired)))
      | DutyAggregator \<Rightarrow>
          (case forEach (\<lambda>d (pubkey, unsignedData). storeAggAttestationUnsafe cd d unsignedData)
                        db unsignedSet of
             (Some err, db1) \<Rightarrow> Some (Some err, db1)
           | (None, db1) \<Rightarrow>
               (case resolveAggQueriesUnsafe db1 of
                  None \<Rightarrow> None
                | Some db2 \<Rightarrow> Some (deleteExpired db2 expired)))
      | DutySyncContribution \<Rightarrow>
          (case forEach (\<lambda>d (pubkey, unsignedData). storeSyncContributionUnsafe cd d unsignedData)
                        db unsignedSet of
             (Some err, db1) \<Rightarrow> Some (Some err, db1)
           | (None, db1) \<Rightarrow>
               (case resolveContribQueriesUnsafe db1 of
                  None \<Rightarrow> None
                | Some db2 \<Rightarrow> Some (deleteExpired db2 expired)))
      | DutyOther n \<Rightarrow> Some (Some ErrUnsupportedDutyType, db))"

subsection \<open>The Await operations\<close>

text \<open>
  Each \<open>Await\<close> function makes its two channels, and under the lock appends its
  waiter and runs the resolver. \<open>make\<close> returns an open, empty channel at a fresh
  address. The result is the addresses of \<open>response\<close> and \<open>cancel\<close> and the state at
  the unlock; \<open>None\<close> when the resolver's send blocks.
\<close>

definition AwaitProposal_register :: "memDB \<Rightarrow> 64 word \<Rightarrow> (nat \<times> nat \<times> memDB) option" where
  "AwaitProposal_register db slot =
     (let cancel = chanNext db; response = Suc (chanNext db);
          db1 = db\<lparr> chanNext := chanNext db + 2,
                    cancelClosed := (cancelClosed db)(cancel := False),
                    proChans := (proChans db)(response := Chan [] 0),
                    proQueries := proQueries db @ [Query slot response cancel] \<rparr>
      in case resolveProQueriesUnsafe db1 of
           None \<Rightarrow> None
         | Some db2 \<Rightarrow> Some (response, cancel, db2))"

definition AwaitAttestation_register ::
  "memDB \<Rightarrow> 64 word \<Rightarrow> 64 word \<Rightarrow> (nat \<times> nat \<times> memDB) option" where
  "AwaitAttestation_register db slot commIdx =
     (let cancel = chanNext db; response = Suc (chanNext db);
          db1 = db\<lparr> chanNext := chanNext db + 2,
                    cancelClosed := (cancelClosed db)(cancel := False),
                    attChans := (attChans db)(response := Chan [] 0),
                    attQueries := attQueries db @ [Query (AttKey slot commIdx) response cancel] \<rparr>
      in case resolveAttQueriesUnsafe db1 of
           None \<Rightarrow> None
         | Some db2 \<Rightarrow> Some (response, cancel, db2))"

definition AwaitAggAttestation_register ::
  "memDB \<Rightarrow> 64 word \<Rightarrow> root \<Rightarrow> (nat \<times> nat \<times> memDB) option" where
  "AwaitAggAttestation_register db slot attestationRoot =
     (let cancel = chanNext db; response = Suc (chanNext db);
          db1 = db\<lparr> chanNext := chanNext db + 2,
                    cancelClosed := (cancelClosed db)(cancel := False),
                    aggChans := (aggChans db)(response := Chan [] 0),
                    aggQueries :=
                      aggQueries db @ [Query (AggKey slot attestationRoot) response cancel] \<rparr>
      in case resolveAggQueriesUnsafe db1 of
           None \<Rightarrow> None
         | Some db2 \<Rightarrow> Some (response, cancel, db2))"

definition AwaitSyncContribution_register ::
  "memDB \<Rightarrow> 64 word \<Rightarrow> 64 word \<Rightarrow> root \<Rightarrow> (nat \<times> nat \<times> memDB) option" where
  "AwaitSyncContribution_register db slot subcommIdx beaconBlockRoot =
     (let cancel = chanNext db; response = Suc (chanNext db);
          db1 = db\<lparr> chanNext := chanNext db + 2,
                    cancelClosed := (cancelClosed db)(cancel := False),
                    contribChans := (contribChans db)(response := Chan [] 0),
                    contribQueries :=
                      contribQueries db @
                      [Query (ContribKey slot subcommIdx beaconBlockRoot) response cancel] \<rparr>
      in case resolveContribQueriesUnsafe db1 of
           None \<Rightarrow> None
         | Some db2 \<Rightarrow> Some (response, cancel, db2))"

text \<open>
  The \<open>select\<close> that ends each \<open>Await\<close> function: every result it can return at a
  moment when the shutdown channel is closed or not, the context is done or not, and the
  response channel is as given. Go chooses among the cases that can proceed; with none
  the call stays suspended (the empty list).
\<close>

definition awaitSelect :: "bool \<Rightarrow> bool \<Rightarrow> 'v chan \<Rightarrow> (error + 'v) list" where
  "awaitSelect shutdownClosed ctxDone response =
     (if shutdownClosed then [Inl ErrShutdown] else []) @
     (if ctxDone then [Inl ErrContext] else []) @
     (case buffered response of [] \<Rightarrow> [] | v # rest \<Rightarrow> [Inr v])"

text \<open>\<open>AwaitAggAttestation\<close> clones the value it received and casts the clone.\<close>

definition cloneAggResult ::
  "codec \<Rightarrow> error + versionedAggregatedAttestation \<Rightarrow> error + versionedAggregatedAttestation"
  where
  "cloneAggResult cd r =
     (case r of
        Inl err \<Rightarrow> Inl err
      | Inr val \<Rightarrow>
          (case Clone cd (UVersionedAggregatedAttestation val) of
             Inl err \<Rightarrow> Inl err
           | Inr (UVersionedAggregatedAttestation aggAtt) \<Rightarrow> Inr aggAtt
           | Inr other \<Rightarrow> Inl ErrInvalidAggregatedAttestation))"

text \<open>
  The results an \<open>Await\<close> call can return when its \<open>select\<close> runs right after the
  unlock, with the state at the unlock. \<open>ctxDone\<close>: the caller's context is done.
\<close>

definition AwaitProposal ::
  "memDB \<Rightarrow> bool \<Rightarrow> 64 word \<Rightarrow> ((error + versionedProposal) list \<times> memDB) option" where
  "AwaitProposal db ctxDone slot =
     (case AwaitProposal_register db slot of
        None \<Rightarrow> None
      | Some (response, cancel, db1) \<Rightarrow>
          Some (awaitSelect (shutdown db1) ctxDone (proChans db1 response), db1))"

definition AwaitAttestation ::
  "memDB \<Rightarrow> bool \<Rightarrow> 64 word \<Rightarrow> 64 word
   \<Rightarrow> ((error + eth2AttestationData) list \<times> memDB) option" where
  "AwaitAttestation db ctxDone slot commIdx =
     (case AwaitAttestation_register db slot commIdx of
        None \<Rightarrow> None
      | Some (response, cancel, db1) \<Rightarrow>
          Some (awaitSelect (shutdown db1) ctxDone (attChans db1 response), db1))"

definition AwaitAggAttestation ::
  "codec \<Rightarrow> memDB \<Rightarrow> bool \<Rightarrow> 64 word \<Rightarrow> root
   \<Rightarrow> ((error + versionedAggregatedAttestation) list \<times> memDB) option" where
  "AwaitAggAttestation cd db ctxDone slot attestationRoot =
     (case AwaitAggAttestation_register db slot attestationRoot of
        None \<Rightarrow> None
      | Some (response, cancel, db1) \<Rightarrow>
          Some (map (cloneAggResult cd)
                    (awaitSelect (shutdown db1) ctxDone (aggChans db1 response)), db1))"

definition AwaitSyncContribution ::
  "memDB \<Rightarrow> bool \<Rightarrow> 64 word \<Rightarrow> 64 word \<Rightarrow> root
   \<Rightarrow> ((error + syncCommitteeContribution) list \<times> memDB) option" where
  "AwaitSyncContribution db ctxDone slot subcommIdx beaconBlockRoot =
     (case AwaitSyncContribution_register db slot subcommIdx beaconBlockRoot of
        None \<Rightarrow> None
      | Some (response, cancel, db1) \<Rightarrow>
          Some (awaitSelect (shutdown db1) ctxDone (contribChans db1 response), db1))"

text \<open>
  What a returning \<open>Await\<close> call does to the channels: the deferred \<open>close(cancel)\<close>,
  and the receive when the \<open>select\<close> took the response.
\<close>

definition closeCancel :: "memDB \<Rightarrow> nat \<Rightarrow> memDB" where
  "closeCancel db cancel = db\<lparr> cancelClosed := (cancelClosed db)(cancel := True) \<rparr>"

definition received :: "'v chan \<Rightarrow> 'v chan" where
  "received c = (case chanRecv c of None \<Rightarrow> c | Some (v, c1) \<Rightarrow> c1)"

definition recvPro :: "memDB \<Rightarrow> nat \<Rightarrow> memDB" where
  "recvPro db response = db\<lparr> proChans := (proChans db)(response := received (proChans db response)) \<rparr>"

definition recvAtt :: "memDB \<Rightarrow> nat \<Rightarrow> memDB" where
  "recvAtt db response = db\<lparr> attChans := (attChans db)(response := received (attChans db response)) \<rparr>"

definition recvAgg :: "memDB \<Rightarrow> nat \<Rightarrow> memDB" where
  "recvAgg db response = db\<lparr> aggChans := (aggChans db)(response := received (aggChans db response)) \<rparr>"

definition recvContrib :: "memDB \<Rightarrow> nat \<Rightarrow> memDB" where
  "recvContrib db response =
     db\<lparr> contribChans := (contribChans db)(response := received (contribChans db response)) \<rparr>"

subsection \<open>PubKeyByAttestation\<close>

definition PubKeyByAttestation ::
  "memDB \<Rightarrow> 64 word \<Rightarrow> 64 word \<Rightarrow> 64 word \<Rightarrow> error + pubKey" where
  "PubKeyByAttestation db slot commIdx valIdx =
     (case attPubKeys db (PkKey slot commIdx valIdx) of
        None \<Rightarrow> Inl ErrPubkeyNotFound
      | Some pubkey \<Rightarrow> Inr pubkey)"

subsection \<open>The states the database can be in\<close>

text \<open>
  A restriction on the attestation payloads of a \<open>Store\<close> call: every entry that clones
  to an attestation satisfies \<open>P\<close>.
\<close>

definition attPayloads ::
  "(attestationData \<Rightarrow> bool) \<Rightarrow> codec \<Rightarrow> (pubKey \<times> unsignedData) list \<Rightarrow> bool" where
  "attPayloads P cd unsignedSet =
     list_all (\<lambda>(pubkey, unsignedData).
                 case Clone cd unsignedData of
                   Inr (UAttestationData attData) \<Rightarrow> P attData
                 | other \<Rightarrow> True) unsignedSet"

text \<open>The attestation's own slot equals the slot of the duty it belongs to.\<close>

definition slotsAgree :: "attestationData \<Rightarrow> bool" where
  "slotsAgree attData = (data_Slot (Data attData) = att_Slot (Duty attData))"

text \<open>
  The states reached from \<open>NewMemDB\<close> by calls of the public functions, in any
  interleaving of their locked sections: \<open>Store\<close> (also when it returns an error, since
  it keeps what it wrote), the registration of an \<open>Await\<close> call, the return of one
  (a receive, the closing of its cancel channel), and \<open>Shutdown\<close>. \<open>P\<close> restricts the
  attestation payloads that callers store.
\<close>

inductive reachable :: "(attestationData \<Rightarrow> bool) \<Rightarrow> codec \<Rightarrow> memDB \<Rightarrow> bool"
  for P :: "attestationData \<Rightarrow> bool" and cd :: codec where
  r_new: "reachable P cd NewMemDB"
| r_store: "reachable P cd db \<Longrightarrow> attPayloads P cd unsignedSet \<Longrightarrow>
     Store cd db duty unsignedSet added expired = Some (err, db1) \<Longrightarrow> reachable P cd db1"
| r_awaitPro: "reachable P cd db \<Longrightarrow>
     AwaitProposal_register db slot = Some (response, cancel, db1) \<Longrightarrow> reachable P cd db1"
| r_awaitAtt: "reachable P cd db \<Longrightarrow>
     AwaitAttestation_register db slot commIdx = Some (response, cancel, db1) \<Longrightarrow>
     reachable P cd db1"
| r_awaitAgg: "reachable P cd db \<Longrightarrow>
     AwaitAggAttestation_register db slot attestationRoot = Some (response, cancel, db1) \<Longrightarrow>
     reachable P cd db1"
| r_awaitContrib: "reachable P cd db \<Longrightarrow>
     AwaitSyncContribution_register db slot subcommIdx beaconBlockRoot =
       Some (response, cancel, db1) \<Longrightarrow>
     reachable P cd db1"
| r_cancel: "reachable P cd db \<Longrightarrow> reachable P cd (closeCancel db cancel)"
| r_recvPro: "reachable P cd db \<Longrightarrow> reachable P cd (recvPro db response)"
| r_recvAtt: "reachable P cd db \<Longrightarrow> reachable P cd (recvAtt db response)"
| r_recvAgg: "reachable P cd db \<Longrightarrow> reachable P cd (recvAgg db response)"
| r_recvContrib: "reachable P cd db \<Longrightarrow> reachable P cd (recvContrib db response)"
| r_shutdown: "reachable P cd db \<Longrightarrow> Shutdown db = Some db1 \<Longrightarrow> reachable P cd db1"

subsection \<open>A concrete codec for the examples\<close>

text \<open>
  Cloning returns the value, a proposal answers with its slot and block root, an
  aggregate with its data; an attestation's hash and rendering read its slot, index and
  block root, a contribution's hash its block root and signature.
\<close>

definition exampleCodec :: codec where
  "exampleCodec =
     \<lparr> Clone = Inr,
       ProposalSlot = (\<lambda>p. Inr (pro_Slot p)),
       ProposalRoot = (\<lambda>p. Inr (pro_BlockRoot p)),
       AggData = (\<lambda>a. Inr (agg_Data a)),
       AttDataHashTreeRoot = (\<lambda>d. Inr (data_BeaconBlockRoot d + ucast (data_Index d))),
       AttDataString =
         (\<lambda>d. map (\<lambda>w. char_of (unat w)) [data_Slot d, data_Index d]
               @ [char_of (unat (data_BeaconBlockRoot d))]),
       ContribHashTreeRoot = (\<lambda>c. Inr (con_BeaconBlockRoot c + of_nat (con_Signature c))) \<rparr>"

subsection \<open>Example values\<close>

definition proposalCC :: versionedProposal where
  "proposalCC = \<lparr> pro_Version = 1, pro_Slot = 5, pro_BlockRoot = 0xCC \<rparr>"

definition proposalDD :: versionedProposal where
  "proposalDD = \<lparr> pro_Version = 1, pro_Slot = 5, pro_BlockRoot = 0xDD \<rparr>"

definition contribA :: syncCommitteeContribution where
  "contribA = \<lparr> con_Slot = 11, con_BeaconBlockRoot = 0xFF, con_SubcommitteeIndex = 0,
                 con_AggregationBits = [True], con_Signature = 1 \<rparr>"

definition contribB :: syncCommitteeContribution where
  "contribB = \<lparr> con_Slot = 11, con_BeaconBlockRoot = 0xFF, con_SubcommitteeIndex = 0,
                 con_AggregationBits = [True, True], con_Signature = 2 \<rparr>"

subsection \<open>Invariants of the waiter registry\<close>

text \<open>
  What the resolver does with a waiter: it delivers to a waiter that is not cancelled
  and whose key is in the map, and keeps one that is not cancelled and whose key is not.
\<close>

definition matched :: "('k \<rightharpoonup> 'v) \<Rightarrow> (nat \<Rightarrow> bool) \<Rightarrow> 'k query \<Rightarrow> bool" where
  "matched duties closed q = (\<not> cancelled closed (Cancel q) \<and> duties (Key q) \<noteq> None)"

definition pending :: "('k \<rightharpoonup> 'v) \<Rightarrow> (nat \<Rightarrow> bool) \<Rightarrow> 'k query \<Rightarrow> bool" where
  "pending duties closed q = (\<not> cancelled closed (Cancel q) \<and> duties (Key q) = None)"

text \<open>
  A waiter list and its channels are in order when the queued waiters have response
  channels at different addresses below the next free one, nothing was ever sent on a
  queued waiter's channel, and no channel has had more than one send.
\<close>

definition queueOk :: "nat \<Rightarrow> (nat \<Rightarrow> 'v chan) \<Rightarrow> 'k query list \<Rightarrow> bool" where
  "queueOk next chans queries =
     (distinct (map Response queries) \<and>
      (\<forall>q \<in> set queries. Response q < next \<and> sent (chans (Response q)) = []) \<and>
      (\<forall>c. length (sent (chans c)) \<le> 1))"

definition waitersOk :: "memDB \<Rightarrow> bool" where
  "waitersOk db =
     (queueOk (chanNext db) (attChans db) (attQueries db) \<and>
      queueOk (chanNext db) (proChans db) (proQueries db) \<and>
      queueOk (chanNext db) (aggChans db) (aggQueries db) \<and>
      queueOk (chanNext db) (contribChans db) (contribQueries db))"

subsection \<open>Groups of fields\<close>

text \<open>
  The fields of the database in the groups that the functions read and write: the
  waiter registry with its channels and signals, and the maps of each duty kind.
\<close>

definition waiterFields ::
  "memDB \<Rightarrow> nat \<times> (nat \<Rightarrow> bool) \<times> bool \<times>
     (attQuery list \<times> (nat \<Rightarrow> eth2AttestationData chan)) \<times>
     (proQuery list \<times> (nat \<Rightarrow> versionedProposal chan)) \<times>
     (aggQuery list \<times> (nat \<Rightarrow> versionedAggregatedAttestation chan)) \<times>
     (contribQuery list \<times> (nat \<Rightarrow> syncCommitteeContribution chan))" where
  "waiterFields db =
     (chanNext db, cancelClosed db, shutdown db, (attQueries db, attChans db),
      (proQueries db, proChans db), (aggQueries db, aggChans db),
      (contribQueries db, contribChans db))"

definition attFields ::
  "memDB \<Rightarrow> (attKey \<rightharpoonup> eth2AttestationData) \<times> (pkKey \<rightharpoonup> pubKey) \<times> (64 word \<rightharpoonup> pkKey list)"
  where
  "attFields db = (attDuties db, attPubKeys db, attKeysBySlot db)"

definition aggFields ::
  "memDB \<Rightarrow> (aggKey \<rightharpoonup> versionedAggregatedAttestation) \<times> (64 word \<rightharpoonup> aggKey list)" where
  "aggFields db = (aggDuties db, aggKeysBySlot db)"

definition contribFields ::
  "memDB \<Rightarrow> (contribKey \<rightharpoonup> syncCommitteeContribution) \<times> (64 word \<rightharpoonup> contribKey list)"
  where
  "contribFields db = (contribDuties db, contribKeysBySlot db)"

section \<open>Properties\<close>

subsection \<open>C2: a second store under an occupied key\<close>

text \<open>
  C2. When a proposer or sync-contribution key already has an entry, a store of a
  payload with the same key returns a clashing-data error and leaves the database as
  it was if the content hash (proposal root, contribution hash tree root) differs from
  the stored entry's, and succeeds without changing the database if it is equal.
\<close>

theorem second_store_clash_or_noop:
  "(Clone cd unsignedData = Inr (UVersionedProposal proposal) \<and>
    ProposalSlot cd proposal = Inr slot \<and> proDuties db slot = Some existing \<and>
    ProposalRoot cd existing = Inr existingRoot \<and>
    ProposalRoot cd proposal = Inr providedRoot \<longrightarrow>
      storeProposalUnsafe cd db unsignedData =
        (if existingRoot \<noteq> providedRoot then (Some ErrClashingBlocks, db) else (None, db)))
   \<and>
   (Clone cd unsignedData = Inr (USyncContribution contrib) \<and>
    contribDuties db (ContribKey (con_Slot contrib) (con_SubcommitteeIndex contrib)
                                 (con_BeaconBlockRoot contrib)) = Some existingContrib \<and>
    ContribHashTreeRoot cd existingContrib = Inr existingHash \<and>
    ContribHashTreeRoot cd contrib = Inr contribRoot \<longrightarrow>
      storeSyncContributionUnsafe cd db unsignedData =
        (if existingHash \<noteq> contribRoot then (Some ErrClashingSyncContributions, db)
         else (None, db)))
   \<and> isClashingData ErrClashingBlocks \<and> isClashingData ErrClashingSyncContributions"
  by (simp add: storeProposalUnsafe_def storeSyncContributionUnsafe_def)

theorem second_store_clash_or_noop_witness:
  "storeProposalUnsafe exampleCodec (NewMemDB\<lparr> proDuties := [5 \<mapsto> proposalCC] \<rparr>)
      (UVersionedProposal proposalDD)
     = (Some ErrClashingBlocks, NewMemDB\<lparr> proDuties := [5 \<mapsto> proposalCC] \<rparr>)
   \<and> storeProposalUnsafe exampleCodec (NewMemDB\<lparr> proDuties := [5 \<mapsto> proposalCC] \<rparr>)
      (UVersionedProposal proposalCC)
     = (None, NewMemDB\<lparr> proDuties := [5 \<mapsto> proposalCC] \<rparr>)
   \<and> storeSyncContributionUnsafe exampleCodec
        (NewMemDB\<lparr> contribDuties := [ContribKey 11 0 0xFF \<mapsto> contribA] \<rparr>)
        (USyncContribution contribB)
     = (Some ErrClashingSyncContributions,
        NewMemDB\<lparr> contribDuties := [ContribKey 11 0 0xFF \<mapsto> contribA] \<rparr>)
   \<and> storeSyncContributionUnsafe exampleCodec
        (NewMemDB\<lparr> contribDuties := [ContribKey 11 0 0xFF \<mapsto> contribA] \<rparr>)
        (USyncContribution contribA)
     = (None, NewMemDB\<lparr> contribDuties := [ContribKey 11 0 0xFF \<mapsto> contribA] \<rparr>)"
proof -
  let ?dbP = "NewMemDB\<lparr> proDuties := [5 \<mapsto> proposalCC] \<rparr>"
  let ?dbC = "NewMemDB\<lparr> contribDuties := [ContribKey 11 0 0xFF \<mapsto> contribA] \<rparr>"
  have p1: "Clone exampleCodec (UVersionedProposal proposalDD) = Inr (UVersionedProposal proposalDD)
      \<and> ProposalSlot exampleCodec proposalDD = Inr 5 \<and> proDuties ?dbP 5 = Some proposalCC
      \<and> ProposalRoot exampleCodec proposalCC = Inr 0xCC
      \<and> ProposalRoot exampleCodec proposalDD = Inr 0xDD"
    by (simp add: exampleCodec_def proposalCC_def proposalDD_def)
  have p2: "Clone exampleCodec (UVersionedProposal proposalCC) = Inr (UVersionedProposal proposalCC)
      \<and> ProposalSlot exampleCodec proposalCC = Inr 5 \<and> proDuties ?dbP 5 = Some proposalCC
      \<and> ProposalRoot exampleCodec proposalCC = Inr 0xCC
      \<and> ProposalRoot exampleCodec proposalCC = Inr 0xCC"
    by (simp add: exampleCodec_def proposalCC_def)
  have c1: "Clone exampleCodec (USyncContribution contribB) = Inr (USyncContribution contribB)
      \<and> contribDuties ?dbC (ContribKey (con_Slot contribB) (con_SubcommitteeIndex contribB)
                                 (con_BeaconBlockRoot contribB)) = Some contribA
      \<and> ContribHashTreeRoot exampleCodec contribA = Inr 0x100
      \<and> ContribHashTreeRoot exampleCodec contribB = Inr 0x101"
    by (simp add: exampleCodec_def contribA_def contribB_def)
  have c2: "Clone exampleCodec (USyncContribution contribA) = Inr (USyncContribution contribA)
      \<and> contribDuties ?dbC (ContribKey (con_Slot contribA) (con_SubcommitteeIndex contribA)
                                 (con_BeaconBlockRoot contribA)) = Some contribA
      \<and> ContribHashTreeRoot exampleCodec contribA = Inr 0x100
      \<and> ContribHashTreeRoot exampleCodec contribA = Inr 0x100"
    by (simp add: exampleCodec_def contribA_def)
  from p1 p2 c1 c2
    second_store_clash_or_noop [THEN conjunct1, rule_format, OF p1]
    second_store_clash_or_noop [THEN conjunct1, rule_format, OF p2]
    second_store_clash_or_noop [THEN conjunct2, THEN conjunct1, rule_format, OF c1]
    second_store_clash_or_noop [THEN conjunct2, THEN conjunct1, rule_format, OF c2]
  show ?thesis by simp
qed

subsection \<open>The resolver loop\<close>

lemma chanSend_fresh: "sent c = [] \<Longrightarrow> chanSend c v = Some (Chan [v] (rcvd c))"
  by (simp add: chanSend_def buffered_def responseCap_def)

lemma resolveLoop_spec:
  "distinct (map Response qs) \<Longrightarrow> \<forall>q \<in> set qs. sent (chans (Response q)) = [] \<Longrightarrow>
   \<exists>chans1. resolveLoop duties closed qs chans un
               = Some (un @ filter (pending duties closed) qs, chans1) \<and>
     (\<forall>q \<in> set qs. \<forall>v. \<not> cancelled closed (Cancel q) \<and> duties (Key q) = Some v \<longrightarrow>
         chans1 (Response q) = Chan [v] (rcvd (chans (Response q)))) \<and>
     (\<forall>c. c \<notin> Response ` {q \<in> set qs. matched duties closed q} \<longrightarrow> chans1 c = chans c)"
proof (induction qs arbitrary: chans un)
  case Nil
  then show ?case by simp
next
  case (Cons q qs)
  have dist: "distinct (map Response qs)" and notin: "Response q \<notin> Response ` set qs"
    using Cons.prems(1) by auto
  show ?case
  proof (cases "cancelled closed (Cancel q)")
    case True
    have fresh: "\<forall>x \<in> set qs. sent (chans (Response x)) = []" using Cons.prems(2) by simp
    from Cons.IH [OF dist fresh, of un] obtain chans1 where
      r: "resolveLoop duties closed qs chans un = Some (un @ filter (pending duties closed) qs, chans1)"
      and d: "\<forall>x \<in> set qs. \<forall>v. \<not> cancelled closed (Cancel x) \<and> duties (Key x) = Some v \<longrightarrow>
         chans1 (Response x) = Chan [v] (rcvd (chans (Response x)))"
      and u: "\<forall>c. c \<notin> Response ` {x \<in> set qs. matched duties closed x} \<longrightarrow> chans1 c = chans c"
      by blast
    have img: "Response ` {x \<in> set (q # qs). matched duties closed x}
                 = Response ` {x \<in> set qs. matched duties closed x}"
      using True by (auto simp: matched_def)
    have pq: "\<not> pending duties closed q" using True by (simp add: pending_def)
    have res: "resolveLoop duties closed (q # qs) chans un
                = Some (un @ filter (pending duties closed) (q # qs), chans1)"
      using True r pq by simp
    have del: "\<forall>x \<in> set (q # qs). \<forall>v. \<not> cancelled closed (Cancel x) \<and> duties (Key x) = Some v \<longrightarrow>
         chans1 (Response x) = Chan [v] (rcvd (chans (Response x)))"
      using True d by auto
    show ?thesis
      using res del u unfolding img by blast
  next
    case live: False
    show ?thesis
    proof (cases "duties (Key q)")
      case None
      have fresh: "\<forall>x \<in> set qs. sent (chans (Response x)) = []" using Cons.prems(2) by simp
      from Cons.IH [OF dist fresh, of "un @ [q]"] obtain chans1 where
        r: "resolveLoop duties closed qs chans (un @ [q])
              = Some ((un @ [q]) @ filter (pending duties closed) qs, chans1)"
        and d: "\<forall>x \<in> set qs. \<forall>v. \<not> cancelled closed (Cancel x) \<and> duties (Key x) = Some v \<longrightarrow>
           chans1 (Response x) = Chan [v] (rcvd (chans (Response x)))"
        and u: "\<forall>c. c \<notin> Response ` {x \<in> set qs. matched duties closed x} \<longrightarrow> chans1 c = chans c"
        by blast
      have img: "Response ` {x \<in> set (q # qs). matched duties closed x}
                   = Response ` {x \<in> set qs. matched duties closed x}"
        using None by (auto simp: matched_def)
      have pq: "pending duties closed q" using live None by (simp add: pending_def)
      have res: "resolveLoop duties closed (q # qs) chans un
                  = Some (un @ filter (pending duties closed) (q # qs), chans1)"
        using live None r pq by simp
      have del: "\<forall>x \<in> set (q # qs). \<forall>v. \<not> cancelled closed (Cancel x) \<and> duties (Key x) = Some v \<longrightarrow>
           chans1 (Response x) = Chan [v] (rcvd (chans (Response x)))"
        using None d by auto
      show ?thesis
        using res del u unfolding img by blast
    next
      case (Some v)
      let ?chans = "chans(Response q := Chan [v] (rcvd (chans (Response q))))"
      have snd: "chanSend (chans (Response q)) v = Some (Chan [v] (rcvd (chans (Response q))))"
        using Cons.prems(2) by (simp add: chanSend_fresh)
      have fresh: "\<forall>x \<in> set qs. sent (?chans (Response x)) = []"
      proof
        fix x assume x: "x \<in> set qs"
        then have "Response x \<noteq> Response q" using notin by (metis imageI)
        then show "sent (?chans (Response x)) = []" using Cons.prems(2) x by simp
      qed
      from Cons.IH [OF dist fresh, of un] obtain chans1 where
        r: "resolveLoop duties closed qs ?chans un
              = Some (un @ filter (pending duties closed) qs, chans1)"
        and d: "\<forall>x \<in> set qs. \<forall>w. \<not> cancelled closed (Cancel x) \<and> duties (Key x) = Some w \<longrightarrow>
           chans1 (Response x) = Chan [w] (rcvd (?chans (Response x)))"
        and u: "\<forall>c. c \<notin> Response ` {x \<in> set qs. matched duties closed x} \<longrightarrow> chans1 c = ?chans c"
        by blast
      have "Response q \<notin> Response ` {x \<in> set qs. matched duties closed x}"
        using notin by blast
      then have here: "chans1 (Response q) = Chan [v] (rcvd (chans (Response q)))"
        using u by simp
      have pq: "\<not> pending duties closed q" using Some by (simp add: pending_def)
      have res: "resolveLoop duties closed (q # qs) chans un
                  = Some (un @ filter (pending duties closed) (q # qs), chans1)"
        using live Some snd r pq by simp
      have del: "\<forall>x \<in> set (q # qs). \<forall>w. \<not> cancelled closed (Cancel x) \<and> duties (Key x) = Some w \<longrightarrow>
           chans1 (Response x) = Chan [w] (rcvd (chans (Response x)))"
      proof (intro ballI allI impI)
        fix x w assume x: "x \<in> set (q # qs)"
          and m: "\<not> cancelled closed (Cancel x) \<and> duties (Key x) = Some w"
        show "chans1 (Response x) = Chan [w] (rcvd (chans (Response x)))"
        proof (cases "x = q")
          case True
          then show ?thesis using here m Some by simp
        next
          case False
          then have xin: "x \<in> set qs" using x by simp
          then have "Response x \<noteq> Response q" using notin by (metis imageI)
          then show ?thesis using d xin m by simp
        qed
      qed
      have unt: "\<forall>c. c \<notin> Response ` {x \<in> set (q # qs). matched duties closed x} \<longrightarrow> chans1 c = chans c"
      proof (intro allI impI)
        fix c assume c: "c \<notin> Response ` {x \<in> set (q # qs). matched duties closed x}"
        have "matched duties closed q" using live Some by (simp add: matched_def)
        then have ne: "c \<noteq> Response q" using c by auto
        have "c \<notin> Response ` {x \<in> set qs. matched duties closed x}" using c by auto
        then show "chans1 c = chans c" using u ne by simp
      qed
      show ?thesis using res del unt by blast
    qed
  qed
qed

lemma resolveLoop_queueOk:
  assumes ok: "queueOk next chans qs"
  shows "\<exists>chans1. resolveLoop duties closed qs chans []
               = Some (filter (pending duties closed) qs, chans1) \<and>
     (\<forall>q \<in> set qs. \<forall>v. \<not> cancelled closed (Cancel q) \<and> duties (Key q) = Some v \<longrightarrow>
         chans1 (Response q) = Chan [v] (rcvd (chans (Response q)))) \<and>
     (\<forall>c. c \<notin> Response ` {q \<in> set qs. matched duties closed q} \<longrightarrow> chans1 c = chans c) \<and>
     queueOk next chans1 (filter (pending duties closed) qs)"
proof -
  have dist: "distinct (map Response qs)"
    and fresh: "\<forall>q \<in> set qs. sent (chans (Response q)) = []"
    and below: "\<forall>q \<in> set qs. Response q < next"
    and once: "\<forall>c. length (sent (chans c)) \<le> 1"
    using ok by (auto simp: queueOk_def)
  from resolveLoop_spec [OF dist fresh, of duties closed "[]"] obtain chans1 where
    r: "resolveLoop duties closed qs chans [] = Some (filter (pending duties closed) qs, chans1)"
    and d: "\<forall>q \<in> set qs. \<forall>v. \<not> cancelled closed (Cancel q) \<and> duties (Key q) = Some v \<longrightarrow>
         chans1 (Response q) = Chan [v] (rcvd (chans (Response q)))"
    and u: "\<forall>c. c \<notin> Response ` {q \<in> set qs. matched duties closed q} \<longrightarrow> chans1 c = chans c"
    by auto
  have inj: "inj_on Response (set qs)" using dist by (simp add: distinct_map)
  have keep: "\<forall>q \<in> set (filter (pending duties closed) qs). chans1 (Response q) = chans (Response q)"
  proof
    fix q assume q: "q \<in> set (filter (pending duties closed) qs)"
    have "Response q \<notin> Response ` {x \<in> set qs. matched duties closed x}"
    proof
      assume "Response q \<in> Response ` {x \<in> set qs. matched duties closed x}"
      then obtain x where x: "x \<in> set qs" "matched duties closed x" "Response q = Response x"
        by auto
      then have "q = x" using inj q by (auto dest: inj_onD)
      then show False using x q by (auto simp: matched_def pending_def)
    qed
    then show "chans1 (Response q) = chans (Response q)" using u by simp
  qed
  have once1: "\<forall>c. length (sent (chans1 c)) \<le> 1"
  proof
    fix c
    show "length (sent (chans1 c)) \<le> 1"
    proof (cases "c \<in> Response ` {q \<in> set qs. matched duties closed q}")
      case True
      then obtain q where "q \<in> set qs" "matched duties closed q" "c = Response q" by auto
      then show ?thesis using d by (auto simp: matched_def)
    next
      case False
      then show ?thesis using u once by simp
    qed
  qed
  have "queueOk next chans1 (filter (pending duties closed) qs)"
    unfolding queueOk_def using dist fresh below keep once1
    by (auto simp: distinct_map_filter)
  then show ?thesis using r d u by blast
qed

subsection \<open>What each function leaves alone\<close>

lemmas views = waiterFields_def attFields_def aggFields_def contribFields_def

lemma forEach_preserves:
  assumes step: "\<And>d x e d1. Q d \<Longrightarrow> f d x = (e, d1) \<Longrightarrow> Q d1"
    and init: "Q db" and run: "forEach f db xs = (e, db1)"
  shows "Q db1"
  using init run
proof (induction xs arbitrary: db)
  case Nil
  then show ?case by simp
next
  case (Cons x xs)
  obtain e0 d0 where fx: "f db x = (e0, d0)" by (cases "f db x")
  have q0: "Q d0" using step Cons.prems(1) fx by blast
  show ?case
  proof (cases e0)
    case None
    then show ?thesis using Cons.IH [OF q0] Cons.prems(2) fx by simp
  next
    case (Some a)
    then show ?thesis using q0 Cons.prems(2) fx by simp
  qed
qed

lemma storeProposalUnsafe_frame:
  "storeProposalUnsafe cd db ud = (e, db1) \<Longrightarrow>
   waiterFields db1 = waiterFields db \<and> attFields db1 = attFields db \<and>
   aggFields db1 = aggFields db \<and> contribFields db1 = contribFields db"
  unfolding storeProposalUnsafe_def views
  by (auto split: sum.splits unsignedData.splits option.splits if_splits)

lemma putAttPubKey_frame:
  "putAttPubKey db s k pk = Inr db1 \<Longrightarrow>
   waiterFields db1 = waiterFields db \<and> proDuties db1 = proDuties db \<and>
   aggFields db1 = aggFields db \<and> contribFields db1 = contribFields db \<and>
   attDuties db1 = attDuties db"
  unfolding putAttPubKey_def views
  by (auto split: option.splits if_splits)

lemma putAttDuty_frame:
  "putAttDuty cd db k d = Inr db1 \<Longrightarrow>
   waiterFields db1 = waiterFields db \<and> proDuties db1 = proDuties db \<and>
   aggFields db1 = aggFields db \<and> contribFields db1 = contribFields db \<and>
   attPubKeys db1 = attPubKeys db \<and> attKeysBySlot db1 = attKeysBySlot db"
  unfolding putAttDuty_def views
  by (auto split: option.splits if_splits)

text \<open>The shape of every run of storeAttestationUnsafe: the blocks completed in order.\<close>

lemma storeAttestationUnsafe_cases:
  assumes run: "storeAttestationUnsafe cd db pk ud = (e, db1)"
  obtains (early) "db1 = db" "e \<noteq> None"
      "\<forall>a. Clone cd ud = Inr (UAttestationData a) \<longrightarrow>
         (\<exists>err. putAttPubKey db (att_Slot (Duty a))
            (PkKey (data_Slot (Data a)) (att_CommitteeIndex (Duty a)) (att_ValidatorIndex (Duty a))) pk
            = Inl err \<and> e = Some err)"
  | (fail1) a d1 err where "Clone cd ud = Inr (UAttestationData a)"
      "putAttPubKey db (att_Slot (Duty a))
         (PkKey (data_Slot (Data a)) (att_CommitteeIndex (Duty a)) (att_ValidatorIndex (Duty a))) pk
         = Inr d1"
      "putAttDuty cd d1 (AttKey (data_Slot (Data a)) (att_CommitteeIndex (Duty a))) (Data a) = Inl err"
      "e = Some err" "db1 = d1"
  | (fail2) a d1 d2 err where "Clone cd ud = Inr (UAttestationData a)"
      "putAttPubKey db (att_Slot (Duty a))
         (PkKey (data_Slot (Data a)) (att_CommitteeIndex (Duty a)) (att_ValidatorIndex (Duty a))) pk
         = Inr d1"
      "putAttDuty cd d1 (AttKey (data_Slot (Data a)) (att_CommitteeIndex (Duty a))) (Data a) = Inr d2"
      "putAttPubKey d2 (att_Slot (Duty a))
         (PkKey (data_Slot (Data a)) 0 (att_ValidatorIndex (Duty a))) pk = Inl err"
      "e = Some err" "db1 = d2"
  | (fail3) a d1 d2 d3 err where "Clone cd ud = Inr (UAttestationData a)"
      "putAttPubKey db (att_Slot (Duty a))
         (PkKey (data_Slot (Data a)) (att_CommitteeIndex (Duty a)) (att_ValidatorIndex (Duty a))) pk
         = Inr d1"
      "putAttDuty cd d1 (AttKey (data_Slot (Data a)) (att_CommitteeIndex (Duty a))) (Data a) = Inr d2"
      "putAttPubKey d2 (att_Slot (Duty a))
         (PkKey (data_Slot (Data a)) 0 (att_ValidatorIndex (Duty a))) pk = Inr d3"
      "putAttDuty cd d3 (AttKey (data_Slot (Data a)) 0) (Data a) = Inl err"
      "e = Some err" "db1 = d3"
  | (ok) a d1 d2 d3 where "Clone cd ud = Inr (UAttestationData a)"
      "putAttPubKey db (att_Slot (Duty a))
         (PkKey (data_Slot (Data a)) (att_CommitteeIndex (Duty a)) (att_ValidatorIndex (Duty a))) pk
         = Inr d1"
      "putAttDuty cd d1 (AttKey (data_Slot (Data a)) (att_CommitteeIndex (Duty a))) (Data a) = Inr d2"
      "putAttPubKey d2 (att_Slot (Duty a))
         (PkKey (data_Slot (Data a)) 0 (att_ValidatorIndex (Duty a))) pk = Inr d3"
      "putAttDuty cd d3 (AttKey (data_Slot (Data a)) 0) (Data a) = Inr db1"
      "e = None"
  using run unfolding storeAttestationUnsafe_def Let_def
  by (auto split: sum.splits unsignedData.splits)

lemma storeAttestationUnsafe_frame:
  assumes run: "storeAttestationUnsafe cd db pk ud = (e, db1)"
  shows "waiterFields db1 = waiterFields db \<and> proDuties db1 = proDuties db \<and>
   aggFields db1 = aggFields db \<and> contribFields db1 = contribFields db"
  using run
proof (cases rule: storeAttestationUnsafe_cases)
  case early
  then show ?thesis by simp
next
  case (fail1 a d1 err)
  then show ?thesis using putAttPubKey_frame [OF fail1(2)] by simp
next
  case (fail2 a d1 d2 err)
  then show ?thesis
    using putAttPubKey_frame [OF fail2(2)] putAttDuty_frame [OF fail2(3)] by simp
next
  case (fail3 a d1 d2 d3 err)
  then show ?thesis
    using putAttPubKey_frame [OF fail3(2)] putAttDuty_frame [OF fail3(3)]
      putAttPubKey_frame [OF fail3(4)] by simp
next
  case (ok a d1 d2 d3)
  then show ?thesis
    using putAttPubKey_frame [OF ok(2)] putAttDuty_frame [OF ok(3)]
      putAttPubKey_frame [OF ok(4)] putAttDuty_frame [OF ok(5)] by simp
qed

lemma storeAggAttestationUnsafe_frame:
  "storeAggAttestationUnsafe cd db ud = (e, db1) \<Longrightarrow>
   waiterFields db1 = waiterFields db \<and> proDuties db1 = proDuties db \<and>
   attFields db1 = attFields db \<and> contribFields db1 = contribFields db"
  unfolding storeAggAttestationUnsafe_def views Let_def
  by (auto split: sum.splits unsignedData.splits option.splits if_splits)

lemma storeSyncContributionUnsafe_frame:
  "storeSyncContributionUnsafe cd db ud = (e, db1) \<Longrightarrow>
   waiterFields db1 = waiterFields db \<and> proDuties db1 = proDuties db \<and>
   attFields db1 = attFields db \<and> aggFields db1 = aggFields db"
  unfolding storeSyncContributionUnsafe_def views Let_def
  by (auto split: sum.splits unsignedData.splits option.splits if_splits)

lemma fold_deleteAttKey_frame:
  "waiterFields (fold deleteAttKey ks db) = waiterFields db \<and>
   proDuties (fold deleteAttKey ks db) = proDuties db \<and>
   aggFields (fold deleteAttKey ks db) = aggFields db \<and>
   contribFields (fold deleteAttKey ks db) = contribFields db \<and>
   attKeysBySlot (fold deleteAttKey ks db) = attKeysBySlot db"
  by (induction ks arbitrary: db) (simp_all add: deleteAttKey_def views)

lemma fold_deleteAggKey_frame:
  "waiterFields (fold deleteAggKey ks db) = waiterFields db \<and>
   proDuties (fold deleteAggKey ks db) = proDuties db \<and>
   attFields (fold deleteAggKey ks db) = attFields db \<and>
   contribFields (fold deleteAggKey ks db) = contribFields db \<and>
   aggKeysBySlot (fold deleteAggKey ks db) = aggKeysBySlot db"
  by (induction ks arbitrary: db) (simp_all add: deleteAggKey_def views)

lemma fold_deleteContribKey_frame:
  "waiterFields (fold deleteContribKey ks db) = waiterFields db \<and>
   proDuties (fold deleteContribKey ks db) = proDuties db \<and>
   attFields (fold deleteContribKey ks db) = attFields db \<and>
   aggFields (fold deleteContribKey ks db) = aggFields db \<and>
   contribKeysBySlot (fold deleteContribKey ks db) = contribKeysBySlot db"
  by (induction ks arbitrary: db) (simp_all add: deleteContribKey_def views)

lemma deleteDutyUnsafe_waiters:
  "deleteDutyUnsafe db duty = (e, db1) \<Longrightarrow> waiterFields db1 = waiterFields db"
  unfolding deleteDutyUnsafe_def Let_def
  using fold_deleteAttKey_frame [of "keysAt (attKeysBySlot db) (Slot duty)" db]
        fold_deleteAggKey_frame [of "keysAt (aggKeysBySlot db) (Slot duty)" db]
        fold_deleteContribKey_frame [of "keysAt (contribKeysBySlot db) (Slot duty)" db]
  by (auto split: dutyType.splits simp: waiterFields_def)

lemma deleteExpired_waiters:
  "deleteExpired db expired = (e, db1) \<Longrightarrow> waiterFields db1 = waiterFields db"
  unfolding deleteExpired_def
  by (rule forEach_preserves [where Q = "\<lambda>d. waiterFields d = waiterFields db" and f = deleteDutyUnsafe])
     (auto dest: deleteDutyUnsafe_waiters)

subsection \<open>The waiter registry stays in order\<close>

lemma waitersOk_cong: "waiterFields db1 = waiterFields db \<Longrightarrow> waitersOk db1 = waitersOk db"
  by (simp add: waiterFields_def waitersOk_def)

lemma queueOk_mono: "queueOk n chans qs \<Longrightarrow> n \<le> m \<Longrightarrow> queueOk m chans qs"
  by (fastforce simp: queueOk_def)

lemma queueOk_alloc:
  assumes ok: "queueOk n chans qs"
  shows "queueOk (n + 2) (chans(Suc n := Chan [] 0)) (qs @ [Query k (Suc n) c])"
proof -
  have below: "\<forall>q \<in> set qs. Response q < n" using ok by (simp add: queueOk_def)
  then have notin: "Suc n \<notin> Response ` set qs" by auto
  show ?thesis
    using ok below notin unfolding queueOk_def
    by (auto simp: less_Suc_eq)
qed

lemma queueOk_alloc_other:
  assumes ok: "queueOk n chans qs"
  shows "queueOk (n + 2) chans qs"
  using ok by (rule queueOk_mono) simp

lemma sent_received: "sent (received c) = sent c"
  by (simp add: received_def chanRecv_def split: option.splits list.splits)

lemma queueOk_received: "queueOk n chans qs \<Longrightarrow> queueOk n (chans(r := received (chans r))) qs"
  by (auto simp: queueOk_def sent_received)

text \<open>A resolver pass on a registry in order: what it returns.\<close>

lemma resolveProQueriesUnsafe_ok:
  assumes ok: "queueOk (chanNext db) (proChans db) (proQueries db)"
  shows "\<exists>chans1. resolveProQueriesUnsafe db
           = Some (db\<lparr> proQueries := filter (pending (proDuties db) (cancelClosed db)) (proQueries db),
                       proChans := chans1 \<rparr>) \<and>
     (\<forall>q \<in> set (proQueries db). \<forall>v. \<not> cancelled (cancelClosed db) (Cancel q) \<and>
          proDuties db (Key q) = Some v \<longrightarrow>
          chans1 (Response q) = Chan [v] (rcvd (proChans db (Response q)))) \<and>
     (\<forall>c. c \<notin> Response ` {q \<in> set (proQueries db). matched (proDuties db) (cancelClosed db) q}
          \<longrightarrow> chans1 c = proChans db c) \<and>
     queueOk (chanNext db) chans1 (filter (pending (proDuties db) (cancelClosed db)) (proQueries db))"
  using resolveLoop_queueOk [OF ok, of "proDuties db" "cancelClosed db"]
  unfolding resolveProQueriesUnsafe_def by auto

lemma resolveAttQueriesUnsafe_ok:
  assumes ok: "queueOk (chanNext db) (attChans db) (attQueries db)"
  shows "\<exists>chans1. resolveAttQueriesUnsafe db
           = Some (db\<lparr> attQueries := filter (pending (attDuties db) (cancelClosed db)) (attQueries db),
                       attChans := chans1 \<rparr>) \<and>
     (\<forall>q \<in> set (attQueries db). \<forall>v. \<not> cancelled (cancelClosed db) (Cancel q) \<and>
          attDuties db (Key q) = Some v \<longrightarrow>
          chans1 (Response q) = Chan [v] (rcvd (attChans db (Response q)))) \<and>
     (\<forall>c. c \<notin> Response ` {q \<in> set (attQueries db). matched (attDuties db) (cancelClosed db) q}
          \<longrightarrow> chans1 c = attChans db c) \<and>
     queueOk (chanNext db) chans1 (filter (pending (attDuties db) (cancelClosed db)) (attQueries db))"
  using resolveLoop_queueOk [OF ok, of "attDuties db" "cancelClosed db"]
  unfolding resolveAttQueriesUnsafe_def by auto

lemma resolveAggQueriesUnsafe_ok:
  assumes ok: "queueOk (chanNext db) (aggChans db) (aggQueries db)"
  shows "\<exists>chans1. resolveAggQueriesUnsafe db
           = Some (db\<lparr> aggQueries := filter (pending (aggDuties db) (cancelClosed db)) (aggQueries db),
                       aggChans := chans1 \<rparr>) \<and>
     (\<forall>q \<in> set (aggQueries db). \<forall>v. \<not> cancelled (cancelClosed db) (Cancel q) \<and>
          aggDuties db (Key q) = Some v \<longrightarrow>
          chans1 (Response q) = Chan [v] (rcvd (aggChans db (Response q)))) \<and>
     (\<forall>c. c \<notin> Response ` {q \<in> set (aggQueries db). matched (aggDuties db) (cancelClosed db) q}
          \<longrightarrow> chans1 c = aggChans db c) \<and>
     queueOk (chanNext db) chans1 (filter (pending (aggDuties db) (cancelClosed db)) (aggQueries db))"
  using resolveLoop_queueOk [OF ok, of "aggDuties db" "cancelClosed db"]
  unfolding resolveAggQueriesUnsafe_def by auto

lemma resolveContribQueriesUnsafe_ok:
  assumes ok: "queueOk (chanNext db) (contribChans db) (contribQueries db)"
  shows "\<exists>chans1. resolveContribQueriesUnsafe db
           = Some (db\<lparr> contribQueries :=
                         filter (pending (contribDuties db) (cancelClosed db)) (contribQueries db),
                       contribChans := chans1 \<rparr>) \<and>
     (\<forall>q \<in> set (contribQueries db). \<forall>v. \<not> cancelled (cancelClosed db) (Cancel q) \<and>
          contribDuties db (Key q) = Some v \<longrightarrow>
          chans1 (Response q) = Chan [v] (rcvd (contribChans db (Response q)))) \<and>
     (\<forall>c. c \<notin> Response ` {q \<in> set (contribQueries db).
                              matched (contribDuties db) (cancelClosed db) q}
          \<longrightarrow> chans1 c = contribChans db c) \<and>
     queueOk (chanNext db) chans1
       (filter (pending (contribDuties db) (cancelClosed db)) (contribQueries db))"
  using resolveLoop_queueOk [OF ok, of "contribDuties db" "cancelClosed db"]
  unfolding resolveContribQueriesUnsafe_def by auto

lemma resolvePro_waitersOk:
  "waitersOk db \<Longrightarrow> \<exists>db1. resolveProQueriesUnsafe db = Some db1 \<and> waitersOk db1 \<and>
      shutdown db1 = shutdown db \<and> cancelClosed db1 = cancelClosed db \<and>
      proDuties db1 = proDuties db \<and> attFields db1 = attFields db \<and>
      aggFields db1 = aggFields db \<and> contribFields db1 = contribFields db"
  using resolveProQueriesUnsafe_ok [of db]
  by (auto simp: waitersOk_def views)

lemma resolveAtt_waitersOk:
  "waitersOk db \<Longrightarrow> \<exists>db1. resolveAttQueriesUnsafe db = Some db1 \<and> waitersOk db1 \<and>
      shutdown db1 = shutdown db \<and> cancelClosed db1 = cancelClosed db \<and>
      proDuties db1 = proDuties db \<and> attFields db1 = attFields db \<and>
      aggFields db1 = aggFields db \<and> contribFields db1 = contribFields db"
  using resolveAttQueriesUnsafe_ok [of db]
  by (auto simp: waitersOk_def views)

lemma resolveAgg_waitersOk:
  "waitersOk db \<Longrightarrow> \<exists>db1. resolveAggQueriesUnsafe db = Some db1 \<and> waitersOk db1 \<and>
      shutdown db1 = shutdown db \<and> cancelClosed db1 = cancelClosed db \<and>
      proDuties db1 = proDuties db \<and> attFields db1 = attFields db \<and>
      aggFields db1 = aggFields db \<and> contribFields db1 = contribFields db"
  using resolveAggQueriesUnsafe_ok [of db]
  by (auto simp: waitersOk_def views)

lemma resolveContrib_waitersOk:
  "waitersOk db \<Longrightarrow> \<exists>db1. resolveContribQueriesUnsafe db = Some db1 \<and> waitersOk db1 \<and>
      shutdown db1 = shutdown db \<and> cancelClosed db1 = cancelClosed db \<and>
      proDuties db1 = proDuties db \<and> attFields db1 = attFields db \<and>
      aggFields db1 = aggFields db \<and> contribFields db1 = contribFields db"
  using resolveContribQueriesUnsafe_ok [of db]
  by (auto simp: waitersOk_def views)

end
